theory Spec2Isabelle
  imports Complex_Main
begin

section \<open>The NeuMF classes of the recommender-systems notebook\<close>

text \<open>
  The notebook on recommender systems defines a class \<^verbatim>\<open>NeuMF\<close> twice, in two code cells,
  each time as a sketch of ``the basic structure of the class and its functions''. These two
  cells are all the code of the repository that concerns NeuMF, and they are what is modelled
  here, statement by statement. What the notebook tells in prose about the two third-party
  files it reads (the embedding layers, the fully connected layers, the steps of the forward
  pass) is not code of this repository and is not modelled.
\<close>

subsection \<open>Instances, results and exceptions\<close>

text \<open>
  An instance is modelled by its attribute dictionary: the names that statements
  \<^verbatim>\<open>self.name = value\<close> have assigned, with their values, in the order of assignment. No type
  of values is fixed, since no statement of the two classes assigns one. A new instance has
  no attribute.
\<close>

type_synonym 'v pyobject = "(string \<times> 'v) list"

definition fresh :: "'v pyobject" where
  "fresh = []"

definition attributes :: "'v pyobject \<Rightarrow> string list" where
  "attributes self = map fst self"

text \<open>
  A call either returns or raises. An exception is modelled by the name of its class; the
  result of a call is \<open>Inl\<close> of the exception raised or \<open>Inr\<close> of what is returned.
\<close>

datatype error = Exception string

text \<open>Reading a data attribute: \<^verbatim>\<open>self.name\<close> raises \<^verbatim>\<open>AttributeError\<close> when it was never assigned.\<close>

definition getattr :: "'v pyobject \<Rightarrow> string \<Rightarrow> error + 'v" where
  "getattr self name =
     (case map_of self name of
        None \<Rightarrow> Inl (Exception ''AttributeError'')
      | Some v \<Rightarrow> Inr v)"

text \<open>
  A method returns a value and may assign attributes: its result is the value together with
  the instance after the call. \<open>returned\<close> keeps the value alone.
\<close>

definition returned :: "error + ('a \<times> 'v pyobject) \<Rightarrow> error + 'a" where
  "returned r = (case r of Inl e \<Rightarrow> Inl e | Inr (out, self') \<Rightarrow> Inr out)"

subsection \<open>The first class\<close>

text \<open>
  \<^verbatim>\<open>
  class NeuMF(nn.Module):
      def __init__(self, nb_users, nb_items,
                   mf_dim, mlp_layer_sizes, dropout=0):

          # self methods go here

          def glorot_uniform(layer):

              # code to initialize with glorot uniform

              pass

          def lecunn_uniform(layer):

              # code to initialize with lecun uniform

              pass

      def forward(self, user, item, sigmoid=False):

          # defines forward propagation?

          pass
  \<close>
  The two functions nested in the constructor have the body \<^verbatim>\<open>pass\<close>: called, each would
  return \<^verbatim>\<open>None\<close>.
\<close>

definition glorot_uniform :: "'layer \<Rightarrow> unit" where
  "glorot_uniform layer = ()"

definition lecunn_uniform :: "'layer \<Rightarrow> unit" where
  "lecunn_uniform layer = ()"

text \<open>
  The constructor defines these two functions and does nothing else. It calls neither of
  them, reads none of its arguments, assigns no attribute and has no \<^verbatim>\<open>raise\<close>: the instance
  is after the call what it was before.
\<close>

definition NeuMF_init ::
    "'v pyobject \<Rightarrow> int \<Rightarrow> int \<Rightarrow> int \<Rightarrow> int list \<Rightarrow> real \<Rightarrow> error + 'v pyobject" where
  "NeuMF_init self nb_users nb_items mf_dim mlp_layer_sizes dropout = Inr self"

text \<open>
  The call of the class, \<^verbatim>\<open>NeuMF(nb_users, nb_items, mf_dim, mlp_layer_sizes, dropout)\<close>: a new
  instance is made, the constructor runs on it, and the instance is the value of the call.
\<close>

definition NeuMF :: "int \<Rightarrow> int \<Rightarrow> int \<Rightarrow> int list \<Rightarrow> real \<Rightarrow> error + 'v pyobject" where
  "NeuMF nb_users nb_items mf_dim mlp_layer_sizes dropout =
     NeuMF_init fresh nb_users nb_items mf_dim mlp_layer_sizes dropout"

text \<open>
  \<^verbatim>\<open>forward\<close> has the body \<^verbatim>\<open>pass\<close>. The value returned is \<^verbatim>\<open>None\<close>, modelled by \<open>None\<close>; a
  batch of scores would be \<open>Some\<close> of a list, and no statement of the method makes one. The
  batches of indices are lists of integers, the flag is a truth value.
\<close>

definition forward ::
    "'v pyobject \<Rightarrow> int list \<Rightarrow> int list \<Rightarrow> bool \<Rightarrow> error + (real list option \<times> 'v pyobject)" where
  "forward self user item sigmoid = Inr (None, self)"


subsection \<open>The second class\<close>




text \<open>The three methods, each with the body \<^verbatim>\<open>pass\<close>.\<close>

definition forward2 ::
    "'v pyobject \<Rightarrow> int list \<Rightarrow> int list \<Rightarrow> error + (real list option \<times> 'v pyobject)" where
  "forward2 self user_indices item_indices = Inr (None, self)"






section \<open>Properties\<close>

subsection \<open>What the constructors and the methods do\<close>

lemma NeuMF_init_returns:
  "NeuMF_init self nb_users nb_items mf_dim mlp_layer_sizes dropout = Inr self"
  by (simp add: NeuMF_init_def)

lemma NeuMF_returns_fresh:
  "NeuMF nb_users nb_items mf_dim mlp_layer_sizes dropout = Inr fresh"
  by (simp add: NeuMF_def NeuMF_init_returns)


lemma forward_returns_None:
  "forward self user item sigmoid = Inr (None, self)"
  by (simp add: forward_def)

lemma forward2_returns_None:
  "forward2 self user_indices item_indices = Inr (None, self)"
  by (simp add: forward2_def)

lemma fresh_has_no_attribute:
  "attributes fresh = []"
  "getattr fresh name = Inl (Exception ''AttributeError'')"
  by (simp_all add: attributes_def getattr_def fresh_def)



subsection \<open>The forward pass\<close>

text \<open>
  \<^bold>\<open>C1.\<close> The claim is that \<^verbatim>\<open>forward\<close>, on every valid batch, makes \<^verbatim>\<open>mf_vector\<close> as the
  elementwise product of the two MF lookups, \<^verbatim>\<open>mlp_vector\<close> as the concatenation of the two
  MLP lookups, applies the hidden layers in order, concatenates the result with
  \<^verbatim>\<open>mf_vector\<close> and applies the final linear layer. In the code, a model of 10 users and 20
  items is an instance without attributes, and \<^verbatim>\<open>forward\<close> on the users \<^verbatim>\<open>[0, 1, 2]\<close> and the
  items \<^verbatim>\<open>[5, 6, 7]\<close> returns \<^verbatim>\<open>None\<close>: there is no lookup to make and no vector is made, in
  either class.
\<close>

theorem forward_makes_no_vector_counterexample:
  "NeuMF 10 20 4 [8, 8, 4, 2] 0 = Inr ([] :: 'v pyobject) \<and>
   forward ([] :: 'v pyobject) [0, 1, 2] [5, 6, 7] True = Inr (None, []) \<and>
   forward2 ([] :: 'v pyobject) [0, 1, 2] [5, 6, 7] = Inr (None, [])"
  by (simp add: NeuMF_def NeuMF_init_def fresh_def forward_def forward2_def)

text \<open>
  \<^bold>\<open>C1, as amended.\<close> \<^verbatim>\<open>forward\<close> as the notebook defines it, in the first class and in the
  second, performs none of the steps: its body is \<^verbatim>\<open>pass\<close>, so on every model, every batch
  and either value of the flag it returns \<^verbatim>\<open>None\<close> and leaves the model as it was.
\<close>

theorem forward_performs_no_step:
  "forward self user item sigmoid = Inr (None, self) \<and>
   forward2 self user_indices item_indices = Inr (None, self)"
  by (simp add: forward_def forward2_def)

text \<open>
  \<^bold>\<open>C4.\<close> The claim is that an index outside \<open>[0, count)\<close> makes \<^verbatim>\<open>forward\<close> fail with an
  OutOfRange error, that batches of different lengths make it fail with a ShapeMismatch
  error, and that a call either returns a complete batch of scores or fails before any
  output. In the code, on a model of 10 users and 20 items, the user index 10, the user index
  \<open>-1\<close> and three users against two items all return: no error is raised, and no batch of
  scores is returned either.
\<close>

theorem forward_checks_no_index_counterexample:
  "NeuMF 10 20 4 [8, 8, 4, 2] 0 = Inr ([] :: 'v pyobject) \<and>
   forward ([] :: 'v pyobject) [10] [5] True = Inr (None, []) \<and>
   forward ([] :: 'v pyobject) [- 1] [5] True = Inr (None, []) \<and>
   forward ([] :: 'v pyobject) [0, 1, 2] [5, 6] True = Inr (None, [])"
  by (simp add: NeuMF_def NeuMF_init_def fresh_def forward_def)

text \<open>
  \<^bold>\<open>C4, as amended.\<close> \<^verbatim>\<open>forward\<close> as the notebook defines it checks neither the indices nor
  the lengths of the batches and raises no error: every call returns, in the first class and
  in the second; it returns \<^verbatim>\<open>None\<close>, not a batch of scores, and the model after the call is
  the model before it.
\<close>

theorem forward_never_raises:
  "\<not> isl (forward self user item sigmoid) \<and>
   \<not> isl (forward2 self user_indices item_indices) \<and>
   forward self user item sigmoid = Inr (None, self) \<and>
   forward2 self user_indices item_indices = Inr (None, self)"
  by (simp add: forward_def forward2_def)

text \<open>
  \<^bold>\<open>C7.\<close> The claim is that \<^verbatim>\<open>forward\<close> on a batch of \<open>N\<close> pairs returns a sequence of exactly
  \<open>N\<close> scalars, in the order of the pairs. In the code, a batch of three pairs does not get a
  sequence of three scalars: it gets \<^verbatim>\<open>None\<close>.
\<close>

theorem forward_returns_no_sequence_counterexample:
  "\<not> (\<exists>ys self'. forward ([] :: 'v pyobject) [0, 1, 2] [5, 6, 7] True = Inr (Some ys, self')
         \<and> length ys = 3)"
  by (simp add: forward_def)

text \<open>
  \<^bold>\<open>C7, as amended.\<close> \<^verbatim>\<open>forward\<close> as the notebook defines it returns \<^verbatim>\<open>None\<close> for a batch of
  any size, not a sequence of scores; what it returns does not depend on the batch, so a
  permuted batch, like any other batch, gets what the batch itself gets.
\<close>

theorem forward_result_independent_of_batch:
  "returned (forward self user item sigmoid) = Inr None \<and>
   returned (forward self user' item' sigmoid) = returned (forward self user item sigmoid)"
  by (simp add: forward_def returned_def)




subsection \<open>Construction\<close>

text \<open>
  \<^bold>\<open>C3.\<close> The claim is that construction fails with an InvalidConfiguration error when
  \<^verbatim>\<open>mlp_layer_sizes\<close> is empty, holds a width that is not positive or starts with an odd
  width, and when a count is not positive, and that \<^verbatim>\<open>mlp_layer_sizes=[7,4]\<close> fails. In the
  code each of these constructs: the empty list, the widths \<^verbatim>\<open>[8, -4]\<close> and \<^verbatim>\<open>[8, 0]\<close>, the
  widths \<^verbatim>\<open>[7, 4]\<close>, no user, and a negative number of items.
\<close>

theorem construction_checks_nothing_counterexample:
  "\<not> isl (NeuMF 10 20 4 [] 0 :: error + 'v pyobject) \<and>
   \<not> isl (NeuMF 10 20 4 [8, - 4] 0 :: error + 'v pyobject) \<and>
   \<not> isl (NeuMF 10 20 4 [8, 0] 0 :: error + 'v pyobject) \<and>
   \<not> isl (NeuMF 10 20 4 [7, 4] 0 :: error + 'v pyobject) \<and>
   \<not> isl (NeuMF 0 20 4 [8, 4] 0 :: error + 'v pyobject) \<and>
   \<not> isl (NeuMF 10 (- 1) 4 [8, 4] 0 :: error + 'v pyobject)"
  by (simp add: NeuMF_def NeuMF_init_def)

text \<open>
  \<^bold>\<open>C3, as amended.\<close> Construction as the notebook defines it never fails: the constructor
  checks nothing and raises nothing, whatever the counts, the dimension, the layer sizes and
  the dropout. An empty \<^verbatim>\<open>mlp_layer_sizes\<close>, widths that are not positive, an odd first width
  and counts that are not positive all construct, and so does \<^verbatim>\<open>mlp_layer_sizes=[7,4]\<close>.
\<close>

theorem construction_never_fails:
  "\<not> isl (NeuMF_init self nb_users nb_items mf_dim mlp_layer_sizes dropout) \<and>
   \<not> isl (NeuMF nb_users nb_items mf_dim mlp_layer_sizes dropout :: error + 'v pyobject)"
  by (simp add: NeuMF_def NeuMF_init_def)

text \<open>
  \<^bold>\<open>C5.\<close> The claim is that construction with a valid configuration builds four embedding
  tables, two of shapes \<open>(user_count, mf_dim)\<close> and \<open>(item_count, mf_dim)\<close> and two of shapes
  \<open>(user_count, mlp_layer_sizes[0]/2)\<close> and \<open>(item_count, mlp_layer_sizes[0]/2)\<close>. In the
  code the model built from 10 users, 20 items, \<^verbatim>\<open>mf_dim=4\<close> and the sizes \<^verbatim>\<open>[8, 8, 4, 2]\<close>
  holds no attribute, hence no table.
\<close>

theorem construction_builds_no_table_counterexample:
  "NeuMF 10 20 4 [8, 8, 4, 2] 0 = Inr ([] :: 'v pyobject) \<and>
   attributes ([] :: 'v pyobject) = []"
  by (simp add: NeuMF_def NeuMF_init_def fresh_def attributes_def)

text \<open>
  \<^bold>\<open>C5, as amended.\<close> Construction as the notebook defines it builds no embedding table: the
  constructor assigns no attribute, so the model it returns, for every configuration, holds
  none.
\<close>

theorem construction_assigns_no_attribute:
  "\<exists>m :: 'v pyobject. NeuMF nb_users nb_items mf_dim mlp_layer_sizes dropout = Inr m
     \<and> attributes m = []"
  by (simp add: NeuMF_returns_fresh fresh_has_no_attribute)

text \<open>
  \<^bold>\<open>C10.\<close> The claim is that with an odd \<^verbatim>\<open>mlp_layer_sizes[0]\<close> construction succeeds, and
  that the user and the item embedding of the MLP branch then each have the dimension
  \<open>\<lfloor>mlp_layer_sizes[0] / 2\<rfloor>\<close>, which makes \<^verbatim>\<open>mlp_layer_sizes[0] - 1\<close> for the two together.
  Construction does succeed; but the model built from the sizes \<^verbatim>\<open>[7, 4]\<close> has no MLP
  embedding of dimension 3, nor of any other: reading \<^verbatim>\<open>mlp_user_embed\<close> or
  \<^verbatim>\<open>mlp_item_embed\<close> raises \<^verbatim>\<open>AttributeError\<close>.
\<close>

theorem odd_first_size_builds_no_embedding_counterexample:
  "NeuMF 10 20 4 [7, 4] 0 = Inr ([] :: 'v pyobject) \<and>
   getattr ([] :: 'v pyobject) ''mlp_user_embed'' = Inl (Exception ''AttributeError'') \<and>
   getattr ([] :: 'v pyobject) ''mlp_item_embed'' = Inl (Exception ''AttributeError'')"
  by (simp add: NeuMF_def NeuMF_init_def fresh_def getattr_def)

text \<open>
  \<^bold>\<open>C10, as amended.\<close> Construction as the notebook defines it succeeds rather than failing
  for every \<^verbatim>\<open>mlp_layer_sizes\<close>, one with an odd first width included, since the constructor
  never reads the list. It creates no MLP embedding: the model it returns has neither
  \<^verbatim>\<open>mlp_user_embed\<close> nor \<^verbatim>\<open>mlp_item_embed\<close>, so the code fixes no embedding dimension and
  no width of a concatenation.
\<close>

theorem construction_creates_no_mlp_embedding:
  "\<exists>m :: 'v pyobject. NeuMF nb_users nb_items mf_dim mlp_layer_sizes dropout = Inr m
     \<and> getattr m ''mlp_user_embed'' = Inl (Exception ''AttributeError'')
     \<and> getattr m ''mlp_item_embed'' = Inl (Exception ''AttributeError'')"
  by (simp add: NeuMF_returns_fresh fresh_has_no_attribute)

subsection \<open>The fusion layer\<close>



end
